theory Spec2Isabelle
  imports Main "HOL-Library.Word" "HOL-Library.Sublist"
begin

section \<open>Values, text and failures of the converter\<close>

text \<open>
  The script \<^verbatim>\<open>tools/json_converter.py\<close> loads one JSON document, prints a header
  line and one line per record, and leaves through \<^verbatim>\<open>sys.exit\<close>.

  A Python \<^verbatim>\<open>str\<close> is a sequence of Unicode code points; it is modelled as the list
  of the code points, so that indexing and length count what Python counts.
  \<open>ascii\<close> embeds a literal of the source.
\<close>

type_synonym ustring = "nat list"

definition ascii :: "string \<Rightarrow> ustring" where
  "ascii s = map of_char s"

text \<open>
  What \<^verbatim>\<open>json.load\<close> returns: \<^verbatim>\<open>None\<close>, a \<^verbatim>\<open>bool\<close>, an unbounded \<^verbatim>\<open>int\<close>,
  a \<^verbatim>\<open>float\<close> (the 64 bits of the IEEE double), a \<^verbatim>\<open>str\<close>, a \<^verbatim>\<open>list\<close>, or a
  \<^verbatim>\<open>dict\<close> with string keys in insertion order. A string is any sequence of code
  points: the escape \<^verbatim>\<open>\ud800\<close> in the document loads as the lone surrogate 55296.
\<close>

datatype pyval =
    PNone
  | PBool bool
  | PInt int
  | PFloat "64 word"
  | PStr ustring
  | PList "pyval list"
  | PDict "(ustring \<times> pyval) list"

text \<open>
  The exceptions that can end the run. \<open>SystemExit\<close> is the one \<^verbatim>\<open>sys.exit\<close> raises;
  it carries the requested status. \<open>UnicodeEncodeError\<close> is what \<^verbatim>\<open>print\<close> raises on
  text that the encoding of standard output does not have.
\<close>

datatype exn =
    OSError
  | UnicodeDecodeError
  | JSONDecodeError
  | TypeError
  | IndexError
  | KeyError
  | UnicodeEncodeError
  | SystemExit int

text \<open>
  The world outside the script. The file at the fixed path, once open: its bytes are
  not UTF-8, or they are not a JSON document, or \<^verbatim>\<open>json.load\<close> returns a value.
  The input of a run is such a file, or \<open>None\<close> when \<^verbatim>\<open>open\<close> fails.
\<close>

datatype pyfile =
    BadEncoding
  | BadJSON
  | Document pyval

type_synonym input = "pyfile option"

text \<open>
  The characters the interpreter writes a float with: digits, sign, point, the
  exponent mark, and the letters of \<^verbatim>\<open>inf\<close> and \<^verbatim>\<open>nan\<close>.
\<close>

datatype fchar =
    Digit nat
  | Minus
  | Plus
  | Point
  | Exponent
  | Letter_i
  | Letter_n
  | Letter_f
  | Letter_a

fun fchar_code :: "fchar \<Rightarrow> nat" where
  "fchar_code (Digit d) = 48 + d mod 10"
| "fchar_code Minus = 45"
| "fchar_code Plus = 43"
| "fchar_code Point = 46"
| "fchar_code Exponent = 101"
| "fchar_code Letter_i = 105"
| "fchar_code Letter_n = 110"
| "fchar_code Letter_f = 102"
| "fchar_code Letter_a = 97"

text \<open>
  What belongs to the interpreter and its environment and is not spelled out here is
  taken as a parameter of the run: the text of a float, the text of a list or a dict
  (which goes through \<^verbatim>\<open>repr\<close> of the elements), and which code points beyond ASCII
  the encoding of standard output has (with UTF-8, all but the surrogates).
\<close>

record runtime =
  float_str :: "64 word \<Rightarrow> fchar list"
  container_str :: "pyval \<Rightarrow> ustring"
  stdout_encodes :: "nat \<Rightarrow> bool"

section \<open>The operations the script uses\<close>

text \<open>Decimal text of an integer, as \<^verbatim>\<open>str\<close> gives it.\<close>

fun dec_nat :: "nat \<Rightarrow> ustring" where
  "dec_nat n = (if n < 10 then [48 + n] else dec_nat (n div 10) @ [48 + n mod 10])"

declare dec_nat.simps [simp del]

definition dec_int :: "int \<Rightarrow> ustring" where
  "dec_int i = (if i < 0 then 45 # dec_nat (nat (- i)) else dec_nat (nat i))"

text \<open>
  \<^verbatim>\<open>{x}\<close> in an f-string is \<^verbatim>\<open>format(x, '')\<close>, which for these types is
  \<^verbatim>\<open>str(x)\<close>: a string is itself, with no quotes.
\<close>

fun py_str :: "runtime \<Rightarrow> pyval \<Rightarrow> ustring" where
  "py_str rt PNone = ascii ''None''"
| "py_str rt (PBool b) = (if b then ascii ''True'' else ascii ''False'')"
| "py_str rt (PInt i) = dec_int i"
| "py_str rt (PFloat w) = map fchar_code (float_str rt w)"
| "py_str rt (PStr s) = s"
| "py_str rt (PList xs) = container_str rt (PList xs)"
| "py_str rt (PDict kvs) = container_str rt (PDict kvs)"

text \<open>
  \<^verbatim>\<open>r[i]\<close> for the constant indices \<^verbatim>\<open>0\<close> and \<^verbatim>\<open>1\<close>. A list or a string raises
  \<^verbatim>\<open>IndexError\<close> out of range; a dict from JSON has string keys only, so an integer
  key raises \<^verbatim>\<open>KeyError\<close>; the other values are not subscriptable.
\<close>

fun getitem :: "pyval \<Rightarrow> nat \<Rightarrow> exn + pyval" where
  "getitem (PList xs) i = (if i < length xs then Inr (xs ! i) else Inl IndexError)"
| "getitem (PStr s) i = (if i < length s then Inr (PStr [s ! i]) else Inl IndexError)"
| "getitem (PDict kvs) i = Inl KeyError"
| "getitem PNone i = Inl TypeError"
| "getitem (PBool b) i = Inl TypeError"
| "getitem (PInt n) i = Inl TypeError"
| "getitem (PFloat w) i = Inl TypeError"

text \<open>
  What \<^verbatim>\<open>for r in data\<close> ranges over: the elements of a list, the characters of a
  string, the keys of a dict; anything else is not iterable.
\<close>

fun iter :: "pyval \<Rightarrow> exn + pyval list" where
  "iter (PList xs) = Inr xs"
| "iter (PStr s) = Inr (map (\<lambda>c. PStr [c]) s)"
| "iter (PDict kvs) = Inr (map (\<lambda>kv. PStr (fst kv)) kvs)"
| "iter PNone = Inl TypeError"
| "iter (PBool b) = Inl TypeError"
| "iter (PInt n) = Inl TypeError"
| "iter (PFloat w) = Inl TypeError"

text \<open>
  Standard output is the text written so far. A text can be written when the encoding
  of the stream has each of its code points; ASCII is in every encoding.
\<close>

type_synonym stdout = ustring

definition encodable :: "runtime \<Rightarrow> ustring \<Rightarrow> bool" where
  "encodable rt s = list_all (\<lambda>c. c < 128 \<or> stdout_encodes rt c) s"

text \<open>
  \<^verbatim>\<open>print(s)\<close> writes \<open>s\<close> and then a newline (code point 10). The stream encodes
  the whole of \<open>s\<close> before it takes any of it, so on text it cannot encode it raises
  \<^verbatim>\<open>UnicodeEncodeError\<close> with nothing written.
\<close>

definition py_print :: "runtime \<Rightarrow> ustring \<Rightarrow> stdout \<Rightarrow> stdout \<times> (exn + unit)" where
  "py_print rt s out =
     (if encodable rt s then (out @ s @ [10], Inr ()) else (out, Inl UnicodeEncodeError))"

section \<open>The script\<close>

definition header :: ustring where
  "header = ascii ''article;resistance''"

text \<open>The f-string \<^verbatim>\<open>f"{article};{resistance}"\<close>.\<close>

definition fstring :: "runtime \<Rightarrow> pyval \<Rightarrow> pyval \<Rightarrow> ustring" where
  "fstring rt article resistance = py_str rt article @ ascii '';'' @ py_str rt resistance"

text \<open>
  One pass of the loop body on record \<open>r\<close>: both subscripts are evaluated before
  anything is printed, and an exception leaves the body with the output unchanged.
\<close>

definition body :: "runtime \<Rightarrow> pyval \<Rightarrow> stdout \<Rightarrow> stdout \<times> (exn + unit)" where
  "body rt r out =
     (case getitem r 0 of
        Inl e \<Rightarrow> (out, Inl e)
      | Inr article \<Rightarrow>
          (case getitem r 1 of
             Inl e \<Rightarrow> (out, Inl e)
           | Inr resistance \<Rightarrow> py_print rt (fstring rt article resistance) out))"

text \<open>The \<^verbatim>\<open>for\<close> loop: the first exception ends it.\<close>

fun loop :: "runtime \<Rightarrow> pyval list \<Rightarrow> stdout \<Rightarrow> stdout \<times> (exn + unit)" where
  "loop rt [] out = (out, Inr ())"
| "loop rt (r # rs) out =
     (case body rt r out of
        (out', Inl e) \<Rightarrow> (out', Inl e)
      | (out', Inr u) \<Rightarrow> loop rt rs out')"

text \<open>\<^verbatim>\<open>open\<close> and \<^verbatim>\<open>json.load\<close>, with the exceptions they raise.\<close>

fun py_open :: "input \<Rightarrow> exn + pyfile" where
  "py_open None = Inl OSError"
| "py_open (Some f) = Inr f"

fun json_load :: "pyfile \<Rightarrow> exn + pyval" where
  "json_load BadEncoding = Inl UnicodeDecodeError"
| "json_load BadJSON = Inl JSONDecodeError"
| "json_load (Document v) = Inr v"

text \<open>
  The block under \<^verbatim>\<open>with\<close>: load, print the header, loop, \<^verbatim>\<open>sys.exit(0)\<close>.
\<close>

definition with_block :: "runtime \<Rightarrow> pyfile \<Rightarrow> stdout \<Rightarrow> stdout \<times> (exn + unit)" where
  "with_block rt f out =
     (case json_load f of
        Inl e \<Rightarrow> (out, Inl e)
      | Inr data \<Rightarrow>
          (case py_print rt header out of
             (out1, Inl e) \<Rightarrow> (out1, Inl e)
           | (out1, Inr u) \<Rightarrow>
               (case iter data of
                  Inl e \<Rightarrow> (out1, Inl e)
                | Inr rs \<Rightarrow>
                    (case loop rt rs out1 of
                       (out2, Inl e) \<Rightarrow> (out2, Inl e)
                     | (out2, Inr u) \<Rightarrow> (out2, Inl (SystemExit 0))))))"

text \<open>
  The whole script, started with nothing written. When \<^verbatim>\<open>open\<close> raises, the
  \<^verbatim>\<open>with\<close> statement is left at once. Otherwise the block runs; the file's
  \<^verbatim>\<open>__exit__\<close> closes it and does not swallow an exception, so an exception of the
  block goes on, and only a block that ends normally lets control reach
  \<^verbatim>\<open>sys.exit(-1)\<close>.
\<close>

definition main :: "runtime \<Rightarrow> input \<Rightarrow> stdout \<times> (exn + unit)" where
  "main rt inp =
     (case py_open inp of
        Inl e \<Rightarrow> ([], Inl e)
      | Inr f \<Rightarrow>
          (case with_block rt f [] of
             (out, Inl e) \<Rightarrow> (out, Inl e)
           | (out, Inr u) \<Rightarrow> (out, Inl (SystemExit (- 1)))))"

text \<open>
  The status the process ends with: the argument of \<^verbatim>\<open>sys.exit\<close>, 1 for any other
  uncaught exception (after the traceback), 0 when the script runs off its end.
\<close>

fun exit_status :: "exn + unit \<Rightarrow> int" where
  "exit_status (Inl (SystemExit n)) = n"
| "exit_status (Inl e) = 1"
| "exit_status (Inr u) = 0"

section \<open>Vocabulary of the statements\<close>

text \<open>
  A record as the data model has it: a JSON array. It is well formed with two elements
  or more, short with fewer.
\<close>

fun record_ok :: "pyval \<Rightarrow> bool" where
  "record_ok (PList xs) = (2 \<le> length xs)"
| "record_ok v = False"

fun short :: "pyval \<Rightarrow> bool" where
  "short (PList xs) = (length xs < 2)"
| "short v = False"

text \<open>
  The row expected for a record: the text of the first element, a semicolon, the text
  of the second element.
\<close>

fun row :: "runtime \<Rightarrow> pyval \<Rightarrow> ustring" where
  "row rt (PList (a # b # xs)) = py_str rt a @ ascii '';'' @ py_str rt b"
| "row rt v = []"

text \<open>The text of a sequence of rows, each ended by a newline.\<close>

definition rows :: "runtime \<Rightarrow> pyval list \<Rightarrow> ustring" where
  "rows rt rs = concat (map (\<lambda>r. row rt r @ [10]) rs)"

text \<open>A record whose row holds no newline character.\<close>

definition one_line :: "runtime \<Rightarrow> pyval \<Rightarrow> bool" where
  "one_line rt r = (10 \<notin> set (row rt r))"

text \<open>A record whose row standard output can encode.\<close>

definition printable :: "runtime \<Rightarrow> pyval \<Rightarrow> bool" where
  "printable rt r = encodable rt (row rt r)"

text \<open>
  The lines of a text: the pieces between newline characters, a last piece without a
  newline counting when it is not empty.
\<close>

fun split_lines :: "ustring \<Rightarrow> ustring \<Rightarrow> ustring list" where
  "split_lines cur [] = (if cur = [] then [] else [cur])"
| "split_lines cur (c # cs) =
     (if c = 10 then cur # split_lines [] cs else split_lines (cur @ [c]) cs)"

definition lines_of :: "ustring \<Rightarrow> ustring list" where
  "lines_of t = split_lines [] t"

text \<open>An exception that is a deliberate exit, as opposed to an uncaught failure.\<close>

fun is_exit :: "exn \<Rightarrow> bool" where
  "is_exit (SystemExit n) = True"
| "is_exit e = False"

text \<open>An input that gives no document: the file does not open, or does not load.\<close>

fun unreadable :: "input \<Rightarrow> bool" where
  "unreadable None = True"
| "unreadable (Some BadEncoding) = True"
| "unreadable (Some BadJSON) = True"
| "unreadable (Some (Document v)) = False"

text \<open>Scalars of the claims: numbers and strings.\<close>

fun is_scalar :: "pyval \<Rightarrow> bool" where
  "is_scalar (PInt i) = True"
| "is_scalar (PFloat w) = True"
| "is_scalar (PStr s) = True"
| "is_scalar v = False"

text \<open>
  Decimal numerals, said without computing them. A sequence of digits denotes a
  number; it is canonical when it is not empty and has no leading zero, the numeral
  \<^verbatim>\<open>0\<close> apart. A text is the numeral of an integer when it is the canonical
  numeral of its absolute value, after a minus sign if and only if it is negative.
\<close>

definition dec_value :: "ustring \<Rightarrow> nat" where
  "dec_value ds = foldl (\<lambda>a d. 10 * a + (d - 48)) 0 ds"

definition is_digit :: "nat \<Rightarrow> bool" where
  "is_digit c = (48 \<le> c \<and> c \<le> 57)"

definition canonical :: "ustring \<Rightarrow> bool" where
  "canonical ds = (ds \<noteq> [] \<and> list_all is_digit ds \<and> (ds = [48] \<or> hd ds \<noteq> 48))"

definition numeral_of :: "int \<Rightarrow> ustring \<Rightarrow> bool" where
  "numeral_of i t =
     (if i < 0 then t \<noteq> [] \<and> hd t = 45 \<and> canonical (tl t) \<and> int (dec_value (tl t)) = - i
      else canonical t \<and> int (dec_value t) = i)"

text \<open>
  The natural text of a scalar: a string is its own characters, nothing added; an
  integer is its numeral; a float is the text the interpreter has for it. Nothing
  else is a scalar.
\<close>

fun renders :: "runtime \<Rightarrow> pyval \<Rightarrow> ustring \<Rightarrow> bool" where
  "renders rt (PStr s) t = (t = s)"
| "renders rt (PInt i) t = numeral_of i t"
| "renders rt (PFloat w) t = (t = map fchar_code (float_str rt w))"
| "renders rt v t = False"

text \<open>
  A runtime to evaluate examples with: standard output in UTF-8, which has every code
  point but the surrogates 55296 to 57343.
\<close>

definition sample_runtime :: runtime where
  "sample_runtime =
     \<lparr>float_str = (\<lambda>w. [Digit 1, Point, Digit 5]),
      container_str = (\<lambda>v. ascii ''[]''),
      stdout_encodes = (\<lambda>c. c < 55296 \<or> (57343 < c \<and> c < 1114112))\<rparr>"

section \<open>Facts about the operations\<close>

lemma record_ok_cases: "record_ok r \<Longrightarrow> \<exists>a b xs. r = PList (a # b # xs)"
  by (cases r) (auto simp: numeral_2_eq_2 Suc_le_length_iff)

lemma short_cases: "short r \<Longrightarrow> r = PList [] \<or> (\<exists>a. r = PList [a])"
  by (cases r) (auto simp: less_2_cases_iff length_Suc_conv)

lemma header_encodable: "encodable rt header"
  by (simp add: encodable_def header_def ascii_def)

lemma print_header: "py_print rt header out = (out @ header @ [10], Inr ())"
  by (simp add: py_print_def header_encodable)

lemma body_pair:
  "body rt (PList (a # b # xs)) out =
     py_print rt (py_str rt a @ ascii '';'' @ py_str rt b) out"
  by (simp add: body_def fstring_def)

lemma body_ok: "record_ok r \<Longrightarrow> body rt r out = py_print rt (row rt r) out"
  by (auto dest!: record_ok_cases simp: body_pair)

lemma body_printable:
  "record_ok r \<Longrightarrow> printable rt r \<Longrightarrow> body rt r out = (out @ row rt r @ [10], Inr ())"
  by (simp add: body_ok py_print_def printable_def)

lemma body_unprintable:
  "record_ok r \<Longrightarrow> \<not> printable rt r \<Longrightarrow> body rt r out = (out, Inl UnicodeEncodeError)"
  by (simp add: body_ok py_print_def printable_def)

lemma body_short: "short r \<Longrightarrow> body rt r out = (out, Inl IndexError)"
  by (auto dest!: short_cases simp: body_def)

lemma loop_append:
  "loop rt pre out = (o2, Inr ()) \<Longrightarrow> loop rt (pre @ post) out = loop rt post o2"
  by (induction pre arbitrary: out) (auto split: prod.splits sum.splits)

lemma loop_printable:
  "list_all record_ok rs \<Longrightarrow> list_all (printable rt) rs \<Longrightarrow>
   loop rt rs out = (out @ rows rt rs, Inr ())"
  by (induction rs arbitrary: out) (auto simp: body_printable rows_def)

lemma loop_well_formed:
  "list_all record_ok rs \<Longrightarrow>
   loop rt rs out =
     (out @ rows rt (takeWhile (printable rt) rs),
      if list_all (printable rt) rs then Inr () else Inl UnicodeEncodeError)"
proof (induction rs arbitrary: out)
  case Nil
  show ?case by (simp add: rows_def)
next
  case (Cons r rs)
  then have ok: "record_ok r" and rest: "list_all record_ok rs"
    by simp_all
  show ?case
  proof (cases "printable rt r")
    case True
    with ok rest Cons.IH [of "out @ row rt r @ [10]"] show ?thesis
      by (simp add: body_printable rows_def)
  next
    case False
    with ok show ?thesis
      by (simp add: body_unprintable rows_def)
  qed
qed

lemma loop_stops_at_short:
  "short r \<Longrightarrow> snd (loop rt (pre @ r # post) out) \<noteq> Inr u"
  by (induction pre arbitrary: out) (auto simp: body_short split: prod.splits sum.splits)

lemma loop_cong_body:
  "(\<And>out. body rt r out = body rt r' out) \<Longrightarrow>
   loop rt (pre @ r # post) out = loop rt (pre @ r' # post) out"
  by (induction pre arbitrary: out) (auto split: prod.splits sum.splits)

lemma main_document:
  "main rt (Some (Document (PList rs))) =
     (case loop rt rs (header @ [10]) of
        (out, Inl e) \<Rightarrow> (out, Inl e)
      | (out, Inr u) \<Rightarrow> (out, Inl (SystemExit 0)))"
  by (simp add: main_def with_block_def print_header split: prod.splits sum.splits)

lemma main_well_formed:
  "list_all record_ok rs \<Longrightarrow>
   main rt (Some (Document (PList rs))) =
     (header @ [10] @ rows rt (takeWhile (printable rt) rs),
      Inl (if list_all (printable rt) rs then SystemExit 0 else UnicodeEncodeError))"
  by (simp add: main_document loop_well_formed)

lemma main_printable:
  "list_all record_ok rs \<Longrightarrow> list_all (printable rt) rs \<Longrightarrow>
   main rt (Some (Document (PList rs))) = (header @ [10] @ rows rt rs, Inl (SystemExit 0))"
  by (simp add: main_document loop_printable)

lemma main_short:
  "loop rt pre (header @ [10]) = (o2, Inr ()) \<Longrightarrow> short r \<Longrightarrow>
   main rt (Some (Document (PList (pre @ r # post)))) = (o2, Inl IndexError)"
  by (simp add: main_document loop_append body_short)

lemma rows_append: "rows rt (xs @ ys) = rows rt xs @ rows rt ys"
  by (simp add: rows_def)

lemma header_no_newline: "10 \<notin> set header"
  by (simp add: header_def ascii_def)

lemma split_lines_line:
  "10 \<notin> set s \<Longrightarrow> split_lines cur (s @ 10 # t) = (cur @ s) # split_lines [] t"
  by (induction s arbitrary: cur) auto

lemma lines_of_line: "10 \<notin> set s \<Longrightarrow> lines_of (s @ 10 # t) = s # lines_of t"
  by (simp add: lines_of_def split_lines_line)

lemma lines_of_rows:
  "list_all (one_line rt) rs \<Longrightarrow> lines_of (rows rt rs) = map (row rt) rs"
  by (induction rs) (auto simp: rows_def one_line_def lines_of_line, simp add: lines_of_def)

lemma not_exit_status: "\<not> is_exit e \<Longrightarrow> exit_status (Inl e) = 1"
  by (cases e) auto

lemma getitem_no_exit: "getitem r i = Inl e \<Longrightarrow> \<not> is_exit e"
  by (cases r) (auto split: if_splits)

lemma py_print_no_exit: "py_print rt s out = (o2, Inl e) \<Longrightarrow> \<not> is_exit e"
  by (auto simp: py_print_def split: if_splits)

lemma body_no_exit: "body rt r out = (o2, Inl e) \<Longrightarrow> \<not> is_exit e"
  by (auto simp: body_def split: sum.splits dest: getitem_no_exit py_print_no_exit)

lemma loop_no_exit: "loop rt rs out = (o2, Inl e) \<Longrightarrow> \<not> is_exit e"
proof (induction rs arbitrary: out)
  case Nil
  then show ?case by simp
next
  case (Cons r rs)
  obtain o1 res where b: "body rt r out = (o1, res)"
    by (cases "body rt r out") auto
  show ?case
  proof (cases res)
    case (Inl e')
    with b Cons.prems have "e' = e" by simp
    with b Inl show ?thesis by (auto dest: body_no_exit)
  next
    case (Inr u)
    with b Cons.prems have "loop rt rs o1 = (o2, Inl e)" by simp
    then show ?thesis by (rule Cons.IH)
  qed
qed

lemma iter_no_exit: "iter v = Inl e \<Longrightarrow> \<not> is_exit e"
  by (cases v) auto

lemma json_load_no_exit: "json_load f = Inl e \<Longrightarrow> \<not> is_exit e"
  by (cases f) auto

lemma with_block_result:
  "snd (with_block rt f out) = Inl (SystemExit 0) \<or>
   (\<exists>e. snd (with_block rt f out) = Inl e \<and> \<not> is_exit e)"
proof (cases "json_load f")
  case (Inl e)
  then have "\<not> is_exit e" by (rule json_load_no_exit)
  with Inl show ?thesis by (simp add: with_block_def)
next
  case (Inr data)
  show ?thesis
  proof (cases "iter data")
    case (Inl e)
    then have "\<not> is_exit e" by (rule iter_no_exit)
    with Inl Inr show ?thesis by (simp add: with_block_def print_header)
  next
    case rs: (Inr rs)
    obtain out2 res where l: "loop rt rs (out @ header @ [10]) = (out2, res)"
      by (cases "loop rt rs (out @ header @ [10])") auto
    show ?thesis
    proof (cases res)
      case (Inl e)
      with l have "\<not> is_exit e" by (auto dest: loop_no_exit)
      with Inl Inr rs l show ?thesis by (simp add: with_block_def print_header)
    next
      case (Inr u)
      with \<open>json_load f = Inr data\<close> rs l show ?thesis
        by (simp add: with_block_def print_header)
    qed
  qed
qed

lemma main_result:
  "snd (main rt inp) = Inl (SystemExit 0) \<or> (\<exists>e. snd (main rt inp) = Inl e \<and> \<not> is_exit e)"
proof (cases inp)
  case None
  then show ?thesis by (simp add: main_def)
next
  case (Some g)
  obtain o2 res where w: "with_block rt g [] = (o2, res)"
    by (cases "with_block rt g []") auto
  then show ?thesis
    using with_block_result [of rt g "[]"] Some by (auto simp: main_def)
qed

lemma dec_value_snoc: "dec_value (ds @ [d]) = 10 * dec_value ds + (d - 48)"
  by (simp add: dec_value_def)

lemma dec_nat_value: "dec_value (dec_nat n) = n"
proof (induction n rule: dec_nat.induct)
  case (1 n)
  show ?case
  proof (cases "n < 10")
    case True
    then show ?thesis by (simp add: dec_nat.simps dec_value_def)
  next
    case False
    with 1 show ?thesis by (subst dec_nat.simps) (simp add: dec_value_snoc)
  qed
qed

lemma dec_nat_digits: "list_all is_digit (dec_nat n)"
proof (induction n rule: dec_nat.induct)
  case (1 n)
  show ?case
  proof (cases "n < 10")
    case True
    then show ?thesis by (simp add: dec_nat.simps is_digit_def)
  next
    case False
    have ih: "list_all is_digit (dec_nat (n div 10))"
      using 1 False by simp
    have "n mod 10 < 10" by simp
    then have "48 + n mod 10 \<le> 57" by linarith
    then have last: "is_digit (48 + n mod 10)"
      by (simp add: is_digit_def)
    have eq: "dec_nat n = dec_nat (n div 10) @ [48 + n mod 10]"
      using False by (subst dec_nat.simps) simp
    show ?thesis
      unfolding eq using ih last by simp
  qed
qed

lemma dec_nat_leading:
  "dec_nat n \<noteq> [] \<and> (0 < n \<longrightarrow> hd (dec_nat n) \<noteq> 48)"
proof (induction n rule: dec_nat.induct)
  case (1 n)
  show ?case
  proof (cases "n < 10")
    case True
    then show ?thesis by (simp add: dec_nat.simps)
  next
    case False
    then have pos: "0 < n div 10" by (simp add: div_greater_zero_iff)
    have ih: "dec_nat (n div 10) \<noteq> [] \<and> (0 < n div 10 \<longrightarrow> hd (dec_nat (n div 10)) \<noteq> 48)"
      using 1 False by simp
    have eq: "dec_nat n = dec_nat (n div 10) @ [48 + n mod 10]"
      using False by (subst dec_nat.simps) simp
    from ih pos eq show ?thesis by simp
  qed
qed

lemma dec_nat_canonical: "canonical (dec_nat n)"
proof (cases "n = 0")
  case True
  then show ?thesis by (simp add: canonical_def dec_nat.simps is_digit_def)
next
  case False
  then show ?thesis
    using dec_nat_leading [of n] dec_nat_digits [of n] by (simp add: canonical_def)
qed

lemma dec_fold_ge: "(a :: nat) \<le> foldl (\<lambda>a d. 10 * a + (d - 48)) a ds"
proof (induction ds arbitrary: a)
  case Nil
  show ?case by simp
next
  case (Cons d ds)
  have "a \<le> 10 * a + (d - 48)" by simp
  also have "\<dots> \<le> foldl (\<lambda>a d. 10 * a + (d - 48)) (10 * a + (d - 48)) ds"
    by (rule Cons.IH)
  finally show ?case by simp
qed

lemma dec_value_pos:
  assumes "ds \<noteq> []" and "is_digit (hd ds)" and "hd ds \<noteq> 48"
  shows "0 < dec_value ds"
proof -
  obtain d es where ds: "ds = d # es"
    using assms(1) by (cases ds) auto
  have "0 < d - 48"
    using assms(2,3) by (simp add: ds is_digit_def)
  also have "d - 48 \<le> foldl (\<lambda>a d. 10 * a + (d - 48)) (d - 48) es"
    by (rule dec_fold_ge)
  finally show ?thesis by (simp add: ds dec_value_def)
qed

lemma dec_nat_of_value: "canonical ds \<Longrightarrow> dec_nat (dec_value ds) = ds"
proof (induction ds rule: rev_induct)
  case Nil
  then show ?case by (simp add: canonical_def)
next
  case (snoc d ds)
  have d: "48 \<le> d" "d \<le> 57"
    using snoc.prems by (simp_all add: canonical_def is_digit_def)
  show ?case
  proof (cases "ds = []")
    case True
    with d show ?thesis by (simp add: dec_value_def dec_nat.simps)
  next
    case False
    then have lead: "hd ds \<noteq> 48" and digits: "list_all is_digit ds"
      using snoc.prems by (auto simp: canonical_def)
    with False have can: "canonical ds"
      by (simp add: canonical_def)
    have "is_digit (hd ds)"
      using False digits by (cases ds) auto
    then have pos: "0 < dec_value ds"
      using False lead by (intro dec_value_pos) auto
    have v: "dec_value (ds @ [d]) = 10 * dec_value ds + (d - 48)"
      by (rule dec_value_snoc)
    have big: "\<not> 10 * dec_value ds + (d - 48) < 10"
      using pos by simp
    obtain k where k: "d = 48 + k" "k < 10"
      using d by (auto simp: le_iff_add)
    have q: "(10 * dec_value ds + (d - 48)) div 10 = dec_value ds"
      by (simp add: k)
    have r: "48 + (10 * dec_value ds + (d - 48)) mod 10 = d"
      by (simp add: k)
    have "dec_nat (10 * dec_value ds + (d - 48)) = dec_nat (dec_value ds) @ [d]"
      using big q r by (subst dec_nat.simps) simp
    then show ?thesis
      using snoc.IH [OF can] v by simp
  qed
qed

lemma numeral_of_dec_int: "numeral_of i (dec_int i)"
  by (simp add: numeral_of_def dec_int_def dec_nat_canonical dec_nat_value)

lemma numeral_of_unique: "numeral_of i t \<Longrightarrow> t = dec_int i"
proof (cases "i < 0")
  case True
  assume "numeral_of i t"
  with True have t: "t \<noteq> []" "hd t = 45" "canonical (tl t)" "int (dec_value (tl t)) = - i"
    by (simp_all add: numeral_of_def)
  then have "dec_value (tl t) = nat (- i)" by simp
  with t(3) have "dec_nat (nat (- i)) = tl t"
    using dec_nat_of_value [of "tl t"] by simp
  with t(1,2) True show ?thesis
    by (cases t) (simp_all add: dec_int_def)
next
  case False
  assume "numeral_of i t"
  with False have t: "canonical t" "int (dec_value t) = i"
    by (simp_all add: numeral_of_def)
  then have "dec_value t = nat i" by simp
  with t(1) have "dec_nat (nat i) = t"
    using dec_nat_of_value [of t] by simp
  with False show ?thesis by (simp add: dec_int_def)
qed

lemma renders_py_str: "renders rt v t \<Longrightarrow> py_str rt v = t"
  by (cases v) (auto dest: numeral_of_unique)

lemma scalar_renders: "is_scalar v \<Longrightarrow> renders rt v (py_str rt v)"
  by (cases v) (auto simp: numeral_of_dec_int)

lemma ascii_float_chars:
  "set (ascii ''0123456789+-.einfa'') =
     {48, 49, 50, 51, 52, 53, 54, 55, 56, 57, 43, 45, 46, 101, 105, 110, 102, 97}"
  by (simp add: ascii_def)

lemma digit_code:
  "k < 10 \<Longrightarrow>
   48 + k \<in> {48, 49, 50, 51, 52, 53, 54, 55, 56, 57, 43, 45, 46, 101, 105, 110, 102, 97 :: nat}"
  by simp presburger

lemma fchar_code_set:
  "fchar_code c \<in> {48, 49, 50, 51, 52, 53, 54, 55, 56, 57, 43, 45, 46, 101, 105, 110, 102, 97}"
proof (cases c)
  case (Digit d)
  have "d mod 10 < 10" by simp
  then show ?thesis
    unfolding Digit fchar_code.simps by (rule digit_code)
qed simp_all

lemma fchar_code_plain: "fchar_code c \<in> set (ascii ''0123456789+-.einfa'')"
  unfolding ascii_float_chars by (rule fchar_code_set)

lemma float_text_plain: "set (py_str rt (PFloat w)) \<subseteq> set (ascii ''0123456789+-.einfa'')"
proof
  fix x
  assume "x \<in> set (py_str rt (PFloat w))"
  then obtain c where "x = fchar_code c"
    by auto
  then show "x \<in> set (ascii ''0123456789+-.einfa'')"
    by (simp only: fchar_code_plain)
qed

section \<open>The header\<close>

text \<open>
  C1. For every input that parses as a JSON array whose records each have at least two
  elements (the empty array included), the first line of standard output is exactly
  \<^verbatim>\<open>article;resistance\<close>.
\<close>

theorem header_first_line:
  assumes "list_all record_ok rs"
  shows "take 1 (lines_of (fst (main rt (Some (Document (PList rs)))))) =
           [ascii ''article;resistance'']"
proof -
  have "fst (main rt (Some (Document (PList rs)))) =
          header @ 10 # rows rt (takeWhile (printable rt) rs)"
    using assms by (simp add: main_well_formed)
  then have "lines_of (fst (main rt (Some (Document (PList rs))))) =
               header # lines_of (rows rt (takeWhile (printable rt) rs))"
    by (simp add: lines_of_line header_no_newline)
  then show ?thesis by (simp add: header_def)
qed

theorem header_first_line_witness:
  "list_all record_ok [] \<and>
   take 1 (lines_of (fst (main sample_runtime (Some (Document (PList [])))))) =
     [ascii ''article;resistance'']"
proof -
  have h: "list_all record_ok []" by simp
  show ?thesis using h header_first_line [OF h, of sample_runtime] by simp
qed

section \<open>Rows\<close>

text \<open>
  C2, as amended. For every input array of length N in which every record has at least
  two elements, no row holds a newline character and standard output can encode every
  row, standard output has exactly N+1 lines: the header, then the rows of the records.
\<close>

theorem row_count_one_line_rows:
  assumes "list_all record_ok rs" and "list_all (one_line rt) rs"
    and "list_all (printable rt) rs"
  shows "lines_of (fst (main rt (Some (Document (PList rs))))) = header # map (row rt) rs \<and>
         length (lines_of (fst (main rt (Some (Document (PList rs)))))) = length rs + 1"
proof -
  have "fst (main rt (Some (Document (PList rs)))) = header @ 10 # rows rt rs"
    using assms(1,3) by (simp add: main_printable)
  then have "lines_of (fst (main rt (Some (Document (PList rs))))) =
               header # lines_of (rows rt rs)"
    by (simp add: lines_of_line header_no_newline)
  then show ?thesis
    using assms(2) by (simp add: lines_of_rows)
qed

theorem row_count_one_line_rows_witness:
  "list_all record_ok [PList [PStr (ascii ''R1''), PStr (ascii ''10k'')],
                       PList [PStr (ascii ''R2''), PInt 220]] \<and>
   list_all (one_line sample_runtime) [PList [PStr (ascii ''R1''), PStr (ascii ''10k'')],
                                       PList [PStr (ascii ''R2''), PInt 220]] \<and>
   list_all (printable sample_runtime) [PList [PStr (ascii ''R1''), PStr (ascii ''10k'')],
                                        PList [PStr (ascii ''R2''), PInt 220]] \<and>
   lines_of (fst (main sample_runtime (Some (Document (PList
       [PList [PStr (ascii ''R1''), PStr (ascii ''10k'')],
        PList [PStr (ascii ''R2''), PInt 220]]))))) =
     [ascii ''article;resistance'', ascii ''R1;10k'', ascii ''R2;220''] \<and>
   length (lines_of (fst (main sample_runtime (Some (Document (PList
       [PList [PStr (ascii ''R1''), PStr (ascii ''10k'')],
        PList [PStr (ascii ''R2''), PInt 220]])))))) = 3"
proof -
  have h1: "list_all record_ok [PList [PStr (ascii ''R1''), PStr (ascii ''10k'')],
                                PList [PStr (ascii ''R2''), PInt 220]]"
    by simp
  have h2: "list_all (one_line sample_runtime)
              [PList [PStr (ascii ''R1''), PStr (ascii ''10k'')],
               PList [PStr (ascii ''R2''), PInt 220]]"
    by (simp add: one_line_def ascii_def dec_int_def dec_nat.simps)
  have h3: "list_all (printable sample_runtime)
              [PList [PStr (ascii ''R1''), PStr (ascii ''10k'')],
               PList [PStr (ascii ''R2''), PInt 220]]"
    by (simp add: printable_def encodable_def ascii_def dec_int_def dec_nat.simps)
  have r: "map (row sample_runtime)
             [PList [PStr (ascii ''R1''), PStr (ascii ''10k'')],
              PList [PStr (ascii ''R2''), PInt 220]] =
           [ascii ''R1;10k'', ascii ''R2;220'']"
    by (simp add: ascii_def dec_int_def dec_nat.simps)
  note t = row_count_one_line_rows [OF h1 h2 h3]
  have a: "lines_of (fst (main sample_runtime (Some (Document (PList
              [PList [PStr (ascii ''R1''), PStr (ascii ''10k'')],
               PList [PStr (ascii ''R2''), PInt 220]]))))) =
           [ascii ''article;resistance'', ascii ''R1;10k'', ascii ''R2;220'']"
    using t r by (simp add: header_def)
  then have b: "length (lines_of (fst (main sample_runtime (Some (Document (PList
                  [PList [PStr (ascii ''R1''), PStr (ascii ''10k'')],
                   PList [PStr (ascii ''R2''), PInt 220]])))))) = 3"
    by simp
  from h1 h2 h3 a b show ?thesis by blast
qed

text \<open>
  C2, as first stated, fails twice over. The input \<^verbatim>\<open>[["a\nb", "c"]]\<close> has one record,
  of two elements, and its output has three lines, not two. The input
  \<^verbatim>\<open>[["\ud800", "x"]]\<close> has one record, of two elements and with no newline, and on a
  UTF-8 standard output its row is not written: the output has one line, not two.
\<close>

theorem row_count_counterexample:
  "list_all record_ok [PList [PStr [97, 10, 98], PStr [99]]] \<and>
   length (lines_of (fst (main sample_runtime
      (Some (Document (PList [PList [PStr [97, 10, 98], PStr [99]]])))))) = 3 \<and>
   length [PList [PStr [97, 10, 98], PStr [99]]] + 1 = 2 \<and>
   list_all record_ok [PList [PStr [55296], PStr [120]]] \<and>
   list_all (one_line sample_runtime) [PList [PStr [55296], PStr [120]]] \<and>
   length (lines_of (fst (main sample_runtime
      (Some (Document (PList [PList [PStr [55296], PStr [120]]])))))) = 1 \<and>
   length [PList [PStr [55296], PStr [120]]] + 1 = 2"
  by (simp add: main_document body_def py_print_def fstring_def header_def ascii_def
      lines_of_def encodable_def sample_runtime_def one_line_def)

text \<open>
  C3, as amended. For every well-formed input array the emitted rows are the rows of
  the input records in the same order, up to the first record whose row standard
  output cannot encode: the output is the header line followed by the row of record
  0, the row of record 1, and so on, each ended by a newline, with no sorting or
  reordering. When every row can be encoded, the rows of all records are emitted.
\<close>

theorem rows_in_input_order:
  assumes "list_all record_ok rs"
  shows "fst (main rt (Some (Document (PList rs)))) =
           concat (map (\<lambda>s. s @ [10]) (header # map (row rt) (takeWhile (printable rt) rs))) \<and>
         (list_all (printable rt) rs \<longrightarrow>
            fst (main rt (Some (Document (PList rs)))) =
              concat (map (\<lambda>s. s @ [10]) (header # map (row rt) rs)))"
proof -
  have a: "fst (main rt (Some (Document (PList rs)))) =
             concat (map (\<lambda>s. s @ [10]) (header # map (row rt) (takeWhile (printable rt) rs)))"
    using assms by (simp add: main_well_formed rows_def comp_def)
  have b: "fst (main rt (Some (Document (PList rs)))) =
             concat (map (\<lambda>s. s @ [10]) (header # map (row rt) rs))"
    if "list_all (printable rt) rs"
  proof -
    have "takeWhile (printable rt) rs = rs"
      using that by (simp add: takeWhile_eq_all_conv list_all_iff)
    with a show ?thesis by (simp only:)
  qed
  from a b show ?thesis by blast
qed

theorem rows_in_input_order_witness:
  "list_all record_ok [PList [PStr (ascii ''R2''), PStr (ascii ''220'')],
                       PList [PStr (ascii ''R1''), PStr (ascii ''10k'')]] \<and>
   list_all (printable sample_runtime) [PList [PStr (ascii ''R2''), PStr (ascii ''220'')],
                                        PList [PStr (ascii ''R1''), PStr (ascii ''10k'')]] \<and>
   fst (main sample_runtime (Some (Document (PList
       [PList [PStr (ascii ''R2''), PStr (ascii ''220'')],
        PList [PStr (ascii ''R1''), PStr (ascii ''10k'')]])))) =
     ascii ''article;resistance'' @ [10] @ ascii ''R2;220'' @ [10] @ ascii ''R1;10k'' @ [10]"
proof -
  have h1: "list_all record_ok [PList [PStr (ascii ''R2''), PStr (ascii ''220'')],
                                PList [PStr (ascii ''R1''), PStr (ascii ''10k'')]]"
    by simp
  have h2: "list_all (printable sample_runtime)
              [PList [PStr (ascii ''R2''), PStr (ascii ''220'')],
               PList [PStr (ascii ''R1''), PStr (ascii ''10k'')]]"
    by (simp add: printable_def encodable_def ascii_def)
  have "fst (main sample_runtime (Some (Document (PList
           [PList [PStr (ascii ''R2''), PStr (ascii ''220'')],
            PList [PStr (ascii ''R1''), PStr (ascii ''10k'')]])))) =
        concat (map (\<lambda>s. s @ [10]) (header # map (row sample_runtime)
           [PList [PStr (ascii ''R2''), PStr (ascii ''220'')],
            PList [PStr (ascii ''R1''), PStr (ascii ''10k'')]]))"
    using rows_in_input_order [OF h1, of sample_runtime] h2 by blast
  then have "fst (main sample_runtime (Some (Document (PList
           [PList [PStr (ascii ''R2''), PStr (ascii ''220'')],
            PList [PStr (ascii ''R1''), PStr (ascii ''10k'')]])))) =
     ascii ''article;resistance'' @ [10] @ ascii ''R2;220'' @ [10] @ ascii ''R1;10k'' @ [10]"
    by (simp add: header_def ascii_def)
  with h1 h2 show ?thesis by blast
qed

text \<open>
  C3, as first stated, fails: for the two well-formed records of
  \<^verbatim>\<open>[["ok", 1], ["\ud800", "x"]]\<close> a UTF-8 standard output gets the row of the first
  only, and the run ends in \<^verbatim>\<open>UnicodeEncodeError\<close>.
\<close>

theorem rows_in_input_order_counterexample:
  "list_all record_ok [PList [PStr (ascii ''ok''), PInt 1],
                       PList [PStr [55296], PStr (ascii ''x'')]] \<and>
   main sample_runtime (Some (Document (PList
       [PList [PStr (ascii ''ok''), PInt 1],
        PList [PStr [55296], PStr (ascii ''x'')]]))) =
     (ascii ''article;resistance'' @ [10] @ ascii ''ok;1'' @ [10], Inl UnicodeEncodeError) \<and>
   fst (main sample_runtime (Some (Document (PList
       [PList [PStr (ascii ''ok''), PInt 1],
        PList [PStr [55296], PStr (ascii ''x'')]])))) \<noteq>
     header @ [10] @ rows sample_runtime
       [PList [PStr (ascii ''ok''), PInt 1],
        PList [PStr [55296], PStr (ascii ''x'')]]"
  by (simp add: main_document body_def py_print_def fstring_def header_def ascii_def
      encodable_def sample_runtime_def rows_def dec_int_def dec_nat.simps)

text \<open>
  C4. For every record with more than two elements the row, when it is emitted, is
  made of its first two elements with one semicolon between them, and the elements
  past the second have no effect: the pass of the loop, and the whole run, are those
  of the record cut to two elements.
\<close>

theorem extra_elements_ignored:
  assumes "2 < length xs"
  shows "body rt (PList xs) out =
           (if encodable rt (py_str rt (xs ! 0) @ ascii '';'' @ py_str rt (xs ! 1))
            then (out @ py_str rt (xs ! 0) @ ascii '';'' @ py_str rt (xs ! 1) @ [10], Inr ())
            else (out, Inl UnicodeEncodeError)) \<and>
         body rt (PList xs) out = body rt (PList (take 2 xs)) out \<and>
         main rt (Some (Document (PList (pre @ PList xs # post)))) =
           main rt (Some (Document (PList (pre @ PList (take 2 xs) # post))))"
proof -
  obtain a b ys where xs: "xs = a # b # ys"
    using assms by (cases xs; cases "tl xs") auto
  have t: "take 2 xs = [a, b]"
    by (simp add: xs numeral_2_eq_2)
  have same: "body rt (PList xs) o1 = body rt (PList (take 2 xs)) o1" for o1
    unfolding t by (simp add: xs body_pair)
  have "loop rt (pre @ PList xs # post) o1 = loop rt (pre @ PList (take 2 xs) # post) o1" for o1
    by (rule loop_cong_body) (rule same)
  then have run: "main rt (Some (Document (PList (pre @ PList xs # post)))) =
                    main rt (Some (Document (PList (pre @ PList (take 2 xs) # post))))"
    by (simp add: main_document)
  have "body rt (PList xs) out =
          (if encodable rt (py_str rt (xs ! 0) @ ascii '';'' @ py_str rt (xs ! 1))
           then (out @ py_str rt (xs ! 0) @ ascii '';'' @ py_str rt (xs ! 1) @ [10], Inr ())
           else (out, Inl UnicodeEncodeError))"
    by (simp add: xs body_pair py_print_def)
  with same run show ?thesis by blast
qed

theorem extra_elements_ignored_witness:
  "2 < length [PStr (ascii ''R1''), PInt 100, PStr (ascii ''extra'')] \<and>
   body sample_runtime (PList [PStr (ascii ''R1''), PInt 100, PStr (ascii ''extra'')]) [] =
     (ascii ''R1;100'' @ [10], Inr ()) \<and>
   body sample_runtime (PList [PStr (ascii ''R1''), PInt 100, PStr (ascii ''extra'')]) [] =
     body sample_runtime (PList (take 2 [PStr (ascii ''R1''), PInt 100, PStr (ascii ''extra'')])) [] \<and>
   main sample_runtime (Some (Document (PList
       ([] @ PList [PStr (ascii ''R1''), PInt 100, PStr (ascii ''extra'')] # [])))) =
   main sample_runtime (Some (Document (PList
       ([] @ PList (take 2 [PStr (ascii ''R1''), PInt 100, PStr (ascii ''extra'')]) # []))))"
proof -
  have h: "2 < length [PStr (ascii ''R1''), PInt 100, PStr (ascii ''extra'')]" by simp
  note t = extra_elements_ignored [OF h, of sample_runtime "[]" "[]" "[]"]
  have e: "encodable sample_runtime
             (py_str sample_runtime ([PStr (ascii ''R1''), PInt 100, PStr (ascii ''extra'')] ! 0) @
              ascii '';'' @
              py_str sample_runtime ([PStr (ascii ''R1''), PInt 100, PStr (ascii ''extra'')] ! 1))"
    by (simp add: encodable_def ascii_def dec_int_def dec_nat.simps)
  have a: "body sample_runtime (PList [PStr (ascii ''R1''), PInt 100, PStr (ascii ''extra'')]) [] =
             (ascii ''R1;100'' @ [10], Inr ())"
    using t e by (simp add: ascii_def dec_int_def dec_nat.simps)
  from h a t show ?thesis by blast
qed

section \<open>Failures and exits\<close>

text \<open>
  C5. For every input array containing a record with fewer than two elements,
  processing that record raises \<^verbatim>\<open>IndexError\<close> with nothing written for it, no row
  cut or whole; the exception is not caught, so a run that reaches the record ends
  there with \<^verbatim>\<open>IndexError\<close>, and every run on such an array ends in an uncaught
  failure with a non-zero status.
\<close>

theorem short_record_raises:
  assumes "short r"
  shows "body rt r out = (out, Inl IndexError) \<and>
         (loop rt pre (header @ [10]) = (o2, Inr ()) \<longrightarrow>
            main rt (Some (Document (PList (pre @ r # post)))) = (o2, Inl IndexError)) \<and>
         (\<exists>e. snd (main rt (Some (Document (PList (pre @ r # post))))) = Inl e \<and> \<not> is_exit e) \<and>
         exit_status (snd (main rt (Some (Document (PList (pre @ r # post)))))) \<noteq> 0"
proof -
  have a: "body rt r out = (out, Inl IndexError)"
    using assms by (rule body_short)
  have b: "main rt (Some (Document (PList (pre @ r # post)))) = (o2, Inl IndexError)"
    if "loop rt pre (header @ [10]) = (o2, Inr ())"
    using that assms by (rule main_short)
  obtain o3 res where l: "loop rt (pre @ r # post) (header @ [10]) = (o3, res)"
    by (cases "loop rt (pre @ r # post) (header @ [10])") auto
  have "res \<noteq> Inr ()"
    using loop_stops_at_short [OF assms, of rt pre post "header @ [10]" "()"] l by simp
  then obtain e where e: "res = Inl e"
    by (cases res) auto
  with l have ne: "\<not> is_exit e"
    by (auto dest: loop_no_exit)
  have m: "snd (main rt (Some (Document (PList (pre @ r # post))))) = Inl e"
    using l e by (simp add: main_document)
  have c: "\<exists>e. snd (main rt (Some (Document (PList (pre @ r # post))))) = Inl e \<and> \<not> is_exit e"
    using m ne by blast
  have d: "exit_status (snd (main rt (Some (Document (PList (pre @ r # post)))))) \<noteq> 0"
    using m ne by (simp add: not_exit_status)
  from a b c d show ?thesis by blast
qed

theorem short_record_raises_witness:
  "short (PList [PStr (ascii ''OnlyOneField'')]) \<and>
   body sample_runtime (PList [PStr (ascii ''OnlyOneField'')]) [] = ([], Inl IndexError) \<and>
   loop sample_runtime [PList [PStr (ascii ''R1''), PStr (ascii ''10k'')]] (header @ [10]) =
     (ascii ''article;resistance'' @ [10] @ ascii ''R1;10k'' @ [10], Inr ()) \<and>
   main sample_runtime (Some (Document (PList
       ([PList [PStr (ascii ''R1''), PStr (ascii ''10k'')]] @
        PList [PStr (ascii ''OnlyOneField'')] # [])))) =
     (ascii ''article;resistance'' @ [10] @ ascii ''R1;10k'' @ [10], Inl IndexError) \<and>
   exit_status (snd (main sample_runtime (Some (Document (PList
       ([PList [PStr (ascii ''R1''), PStr (ascii ''10k'')]] @
        PList [PStr (ascii ''OnlyOneField'')] # [])))))) \<noteq> 0"
proof -
  have h1: "short (PList [PStr (ascii ''OnlyOneField'')])" by simp
  have h2: "loop sample_runtime [PList [PStr (ascii ''R1''), PStr (ascii ''10k'')]]
              (header @ [10]) =
            (ascii ''article;resistance'' @ [10] @ ascii ''R1;10k'' @ [10], Inr ())"
    by (simp add: body_def py_print_def fstring_def encodable_def header_def ascii_def)
  note t = short_record_raises [OF h1, of sample_runtime "[]"
      "[PList [PStr (ascii ''R1''), PStr (ascii ''10k'')]]"
      "ascii ''article;resistance'' @ [10] @ ascii ''R1;10k'' @ [10]" "[]"]
  from h1 h2 t show ?thesis by blast
qed

text \<open>
  C6. If the input file cannot be opened, or its content does not load as JSON, the
  run ends with an uncaught exception that is not a deliberate exit, the status is
  not zero, and nothing is written to standard output, not even the header.
\<close>

theorem unreadable_input_fails:
  assumes "unreadable inp"
  shows "fst (main rt inp) = [] \<and>
         (\<exists>e. snd (main rt inp) = Inl e \<and> \<not> is_exit e) \<and>
         exit_status (snd (main rt inp)) \<noteq> 0"
  using assms
  by (cases inp rule: unreadable.cases) (simp_all add: main_def with_block_def)

theorem unreadable_input_fails_witness:
  "unreadable None \<and>
   fst (main sample_runtime None) = [] \<and>
   snd (main sample_runtime None) = Inl OSError \<and>
   exit_status (snd (main sample_runtime None)) \<noteq> 0"
proof -
  have h: "unreadable None" by simp
  show ?thesis
    using h unreadable_input_fails [OF h, of sample_runtime]
    by (simp add: main_def)
qed

text \<open>
  C7. Whenever the loop runs over the whole parsed sequence without an exception, the
  script leaves through \<^verbatim>\<open>sys.exit(0)\<close>: the process ends with status 0.
\<close>

theorem loop_completion_exits_zero:
  assumes "iter data = Inr rs" and "loop rt rs (header @ [10]) = (out, Inr ())"
  shows "main rt (Some (Document data)) = (out, Inl (SystemExit 0)) \<and>
         exit_status (snd (main rt (Some (Document data)))) = 0"
  using assms by (simp add: main_def with_block_def print_header)

theorem loop_completion_exits_zero_witness:
  "iter (PList [PList [PStr (ascii ''R1''), PStr (ascii ''10k'')]]) =
     Inr [PList [PStr (ascii ''R1''), PStr (ascii ''10k'')]] \<and>
   loop sample_runtime [PList [PStr (ascii ''R1''), PStr (ascii ''10k'')]] (header @ [10]) =
     (ascii ''article;resistance'' @ [10] @ ascii ''R1;10k'' @ [10], Inr ()) \<and>
   main sample_runtime (Some (Document (PList [PList [PStr (ascii ''R1''), PStr (ascii ''10k'')]]))) =
     (ascii ''article;resistance'' @ [10] @ ascii ''R1;10k'' @ [10], Inl (SystemExit 0)) \<and>
   exit_status (snd (main sample_runtime
       (Some (Document (PList [PList [PStr (ascii ''R1''), PStr (ascii ''10k'')]]))))) = 0"
proof -
  have h1: "iter (PList [PList [PStr (ascii ''R1''), PStr (ascii ''10k'')]]) =
              Inr [PList [PStr (ascii ''R1''), PStr (ascii ''10k'')]]"
    by simp
  have h2: "loop sample_runtime [PList [PStr (ascii ''R1''), PStr (ascii ''10k'')]]
              (header @ [10]) =
            (ascii ''article;resistance'' @ [10] @ ascii ''R1;10k'' @ [10], Inr ())"
    by (simp add: body_def py_print_def fstring_def encodable_def header_def ascii_def)
  note t = loop_completion_exits_zero [OF h1 h2]
  from h1 h2 t show ?thesis by blast
qed

text \<open>
  C8. The exit with status -1 is never reached: on every run the block under
  \<^verbatim>\<open>with\<close> ends in an exception and never normally, so the run ends either with
  \<^verbatim>\<open>sys.exit(0)\<close> or with an uncaught failure, and never with \<^verbatim>\<open>sys.exit(-1)\<close>.
\<close>

theorem failure_exit_unreachable:
  "snd (with_block rt f out) \<noteq> Inr () \<and>
   snd (main rt inp) \<noteq> Inl (SystemExit (- 1)) \<and>
   (snd (main rt inp) = Inl (SystemExit 0) \<or>
    (\<exists>e. snd (main rt inp) = Inl e \<and> \<not> is_exit e))"
proof -
  have a: "snd (with_block rt f out) \<noteq> Inr ()"
    using with_block_result [of rt f out] by auto
  have c: "snd (main rt inp) = Inl (SystemExit 0) \<or>
           (\<exists>e. snd (main rt inp) = Inl e \<and> \<not> is_exit e)"
    by (rule main_result)
  then have b: "snd (main rt inp) \<noteq> Inl (SystemExit (- 1))"
    by auto
  from a b c show ?thesis by blast
qed

theorem failure_exit_unreachable_witness:
  "snd (with_block sample_runtime (Document (PList [])) []) \<noteq> Inr () \<and>
   snd (main sample_runtime (Some (Document (PList [])))) \<noteq> Inl (SystemExit (- 1)) \<and>
   snd (main sample_runtime (Some (Document (PList [])))) = Inl (SystemExit 0)"
  using failure_exit_unreachable [of sample_runtime "Document (PList [])" "[]"
      "Some (Document (PList []))"]
  by (simp add: main_def with_block_def print_header)

section \<open>Text of scalars, and output before a failure\<close>

text \<open>
  C9. For every record whose first two elements are numbers or strings, the row, when
  standard output takes it, is the natural text of the first, one semicolon, the
  natural text of the second, with nothing added; when standard output cannot encode
  it, nothing is written for the record. The natural text of a string is the string
  itself, whatever its characters (a semicolon too); that of an integer is its
  decimal numeral; that of a float is the text the interpreter has for it, made of
  digits, signs, a point, an exponent mark and the letters of \<^verbatim>\<open>inf\<close> and
  \<^verbatim>\<open>nan\<close>, so with no quote in it. Every scalar has such a text.
\<close>

theorem scalar_text_unquoted:
  assumes "renders rt a ta" and "renders rt b tb"
  shows "body rt (PList (a # b # xs)) out =
           (if encodable rt (ta @ ascii '';'' @ tb)
            then (out @ ta @ ascii '';'' @ tb @ [10], Inr ())
            else (out, Inl UnicodeEncodeError)) \<and>
         (is_scalar v \<longrightarrow> renders rt v (py_str rt v)) \<and>
         set (py_str rt (PFloat w)) \<subseteq> set (ascii ''0123456789+-.einfa'')"
proof -
  have "py_str rt a = ta" and "py_str rt b = tb"
    using assms by (simp_all add: renders_py_str)
  then have "body rt (PList (a # b # xs)) out =
               (if encodable rt (ta @ ascii '';'' @ tb)
                then (out @ ta @ ascii '';'' @ tb @ [10], Inr ())
                else (out, Inl UnicodeEncodeError))"
    by (simp add: body_pair py_print_def)
  then show ?thesis
    using scalar_renders [of v rt] float_text_plain [of rt w] by blast
qed

theorem scalar_text_unquoted_witness:
  "renders sample_runtime (PStr (ascii ''a;b'')) (ascii ''a;b'') \<and>
   renders sample_runtime (PFloat 0) (ascii ''1.5'') \<and>
   body sample_runtime (PList (PStr (ascii ''a;b'') # PFloat 0 # [])) [] =
     (ascii ''a;b;1.5'' @ [10], Inr ()) \<and>
   is_scalar (PInt (- 1050)) \<and>
   renders sample_runtime (PInt (- 1050)) (ascii ''-1050'')"
proof -
  have h1: "renders sample_runtime (PStr (ascii ''a;b'')) (ascii ''a;b'')" by simp
  have h2: "renders sample_runtime (PFloat 0) (ascii ''1.5'')"
    by (simp add: sample_runtime_def ascii_def)
  have h3: "is_scalar (PInt (- 1050))" by simp
  have e: "encodable sample_runtime (ascii ''a;b'' @ ascii '';'' @ ascii ''1.5'')"
    by (simp add: encodable_def ascii_def)
  have p: "py_str sample_runtime (PInt (- 1050)) = ascii ''-1050''"
    by (simp add: dec_int_def dec_nat.simps ascii_def)
  note t = scalar_text_unquoted [OF h1 h2, of "[]" "[]" "PInt (- 1050)" 0]
  have a: "body sample_runtime (PList (PStr (ascii ''a;b'') # PFloat 0 # [])) [] =
             (ascii ''a;b;1.5'' @ [10], Inr ())"
    using t e by (simp add: ascii_def)
  have b: "renders sample_runtime (PInt (- 1050)) (ascii ''-1050'')"
    using t h3 p by (simp only:)
  from h1 h2 h3 a b show ?thesis by blast
qed

text \<open>
  C10, as amended. When the first short record of the input array is at index \<open>i\<close>,
  with well-formed records before it whose rows standard output can encode, what was
  written when the run ends is exactly the header line and the rows of records \<open>0\<close>
  to \<open>i - 1\<close>, with nothing for the short record. It is a prefix of the output of
  every successful run on an input with the same records before index \<open>i\<close>.
\<close>

theorem output_prefix_on_failure:
  assumes "i < length rs" and "list_all record_ok (take i rs)"
    and "list_all (printable rt) (take i rs)" and "short (rs ! i)"
    and "list_all record_ok rs'" and "list_all (printable rt) rs'"
    and "take i rs' = take i rs"
  shows "fst (main rt (Some (Document (PList rs)))) = header @ [10] @ rows rt (take i rs) \<and>
         prefix (fst (main rt (Some (Document (PList rs)))))
                (fst (main rt (Some (Document (PList rs')))))"
proof -
  have reach: "loop rt (take i rs) (header @ [10]) =
                 ((header @ [10]) @ rows rt (take i rs), Inr ())"
    using assms(2,3) by (rule loop_printable)
  have "rs = take i rs @ rs ! i # drop (Suc i) rs"
    using assms(1) by (rule id_take_nth_drop)
  then have "main rt (Some (Document (PList rs))) =
               main rt (Some (Document (PList (take i rs @ rs ! i # drop (Suc i) rs))))"
    by simp
  then have failed: "main rt (Some (Document (PList rs))) =
                       ((header @ [10]) @ rows rt (take i rs), Inl IndexError)"
    using main_short [OF reach assms(4)] by simp
  have "rows rt rs' = rows rt (take i rs' @ drop i rs')"
    by simp
  then have "rows rt rs' = rows rt (take i rs) @ rows rt (drop i rs')"
    using assms(7) by (simp only: rows_append)
  then have "fst (main rt (Some (Document (PList rs')))) =
               ((header @ [10]) @ rows rt (take i rs)) @ rows rt (drop i rs')"
    using assms(5,6) by (simp add: main_printable)
  then have p: "prefix (fst (main rt (Some (Document (PList rs)))))
                       (fst (main rt (Some (Document (PList rs')))))"
    using failed by (simp only: fst_conv prefixI)
  have "fst (main rt (Some (Document (PList rs)))) = header @ [10] @ rows rt (take i rs)"
    using failed by simp
  with p show ?thesis by blast
qed

theorem output_prefix_on_failure_witness:
  "(1 :: nat) < length [PList [PStr (ascii ''R1''), PStr (ascii ''10k'')],
                        PList [PStr (ascii ''OnlyOneField'')],
                        PList [PStr (ascii ''R3''), PStr (ascii ''1M'')]] \<and>
   list_all record_ok (take 1 [PList [PStr (ascii ''R1''), PStr (ascii ''10k'')],
                               PList [PStr (ascii ''OnlyOneField'')],
                               PList [PStr (ascii ''R3''), PStr (ascii ''1M'')]]) \<and>
   list_all (printable sample_runtime)
     (take 1 [PList [PStr (ascii ''R1''), PStr (ascii ''10k'')],
              PList [PStr (ascii ''OnlyOneField'')],
              PList [PStr (ascii ''R3''), PStr (ascii ''1M'')]]) \<and>
   short ([PList [PStr (ascii ''R1''), PStr (ascii ''10k'')],
           PList [PStr (ascii ''OnlyOneField'')],
           PList [PStr (ascii ''R3''), PStr (ascii ''1M'')]] ! 1) \<and>
   list_all record_ok [PList [PStr (ascii ''R1''), PStr (ascii ''10k'')],
                       PList [PStr (ascii ''R2''), PStr (ascii ''220'')]] \<and>
   list_all (printable sample_runtime)
     [PList [PStr (ascii ''R1''), PStr (ascii ''10k'')],
      PList [PStr (ascii ''R2''), PStr (ascii ''220'')]] \<and>
   fst (main sample_runtime (Some (Document (PList
       [PList [PStr (ascii ''R1''), PStr (ascii ''10k'')],
        PList [PStr (ascii ''OnlyOneField'')],
        PList [PStr (ascii ''R3''), PStr (ascii ''1M'')]])))) =
     ascii ''article;resistance'' @ [10] @ ascii ''R1;10k'' @ [10] \<and>
   prefix (fst (main sample_runtime (Some (Document (PList
              [PList [PStr (ascii ''R1''), PStr (ascii ''10k'')],
               PList [PStr (ascii ''OnlyOneField'')],
               PList [PStr (ascii ''R3''), PStr (ascii ''1M'')]])))))
          (fst (main sample_runtime (Some (Document (PList
              [PList [PStr (ascii ''R1''), PStr (ascii ''10k'')],
               PList [PStr (ascii ''R2''), PStr (ascii ''220'')]])))))"
proof -
  have h1: "(1 :: nat) < length [PList [PStr (ascii ''R1''), PStr (ascii ''10k'')],
                                 PList [PStr (ascii ''OnlyOneField'')],
                                 PList [PStr (ascii ''R3''), PStr (ascii ''1M'')]]"
    by simp
  have h2: "list_all record_ok (take 1 [PList [PStr (ascii ''R1''), PStr (ascii ''10k'')],
                                        PList [PStr (ascii ''OnlyOneField'')],
                                        PList [PStr (ascii ''R3''), PStr (ascii ''1M'')]])"
    by simp
  have h3: "list_all (printable sample_runtime)
              (take 1 [PList [PStr (ascii ''R1''), PStr (ascii ''10k'')],
                       PList [PStr (ascii ''OnlyOneField'')],
                       PList [PStr (ascii ''R3''), PStr (ascii ''1M'')]])"
    by (simp add: printable_def encodable_def ascii_def)
  have h4: "short ([PList [PStr (ascii ''R1''), PStr (ascii ''10k'')],
                    PList [PStr (ascii ''OnlyOneField'')],
                    PList [PStr (ascii ''R3''), PStr (ascii ''1M'')]] ! 1)"
    by simp
  have h5: "list_all record_ok [PList [PStr (ascii ''R1''), PStr (ascii ''10k'')],
                                PList [PStr (ascii ''R2''), PStr (ascii ''220'')]]"
    by simp
  have h6: "list_all (printable sample_runtime)
              [PList [PStr (ascii ''R1''), PStr (ascii ''10k'')],
               PList [PStr (ascii ''R2''), PStr (ascii ''220'')]]"
    by (simp add: printable_def encodable_def ascii_def)
  have h7: "take 1 [PList [PStr (ascii ''R1''), PStr (ascii ''10k'')],
                    PList [PStr (ascii ''R2''), PStr (ascii ''220'')]] =
            take 1 [PList [PStr (ascii ''R1''), PStr (ascii ''10k'')],
                    PList [PStr (ascii ''OnlyOneField'')],
                    PList [PStr (ascii ''R3''), PStr (ascii ''1M'')]]"
    by simp
  have out: "rows sample_runtime (take 1
               [PList [PStr (ascii ''R1''), PStr (ascii ''10k'')],
                PList [PStr (ascii ''OnlyOneField'')],
                PList [PStr (ascii ''R3''), PStr (ascii ''1M'')]]) =
             ascii ''R1;10k'' @ [10]"
    by (simp add: rows_def ascii_def)
  note t = output_prefix_on_failure [OF h1 h2 h3 h4 h5 h6 h7]
  have a: "fst (main sample_runtime (Some (Document (PList
              [PList [PStr (ascii ''R1''), PStr (ascii ''10k'')],
               PList [PStr (ascii ''OnlyOneField'')],
               PList [PStr (ascii ''R3''), PStr (ascii ''1M'')]])))) =
           ascii ''article;resistance'' @ [10] @ ascii ''R1;10k'' @ [10]"
    using t by (simp only: out header_def)
  have b: "prefix (fst (main sample_runtime (Some (Document (PList
                     [PList [PStr (ascii ''R1''), PStr (ascii ''10k'')],
                      PList [PStr (ascii ''OnlyOneField'')],
                      PList [PStr (ascii ''R3''), PStr (ascii ''1M'')]])))))
                  (fst (main sample_runtime (Some (Document (PList
                     [PList [PStr (ascii ''R1''), PStr (ascii ''10k'')],
                      PList [PStr (ascii ''R2''), PStr (ascii ''220'')]])))))"
    using t by (rule conjunct2)
  from h1 h2 h3 h4 h5 h6 a b show ?thesis by blast
qed

text \<open>
  C10, as first stated, fails: in \<^verbatim>\<open>[["\ud800", "x"], ["OnlyOneField"]]\<close> the first
  short record is at index 1 and the record before it is well formed, yet on a UTF-8
  standard output the run ends at record 0 with \<^verbatim>\<open>UnicodeEncodeError\<close>: what was
  written is the header alone, not the header and the row of record 0.
\<close>

theorem output_prefix_on_failure_counterexample:
  "(1 :: nat) < length [PList [PStr [55296], PStr (ascii ''x'')],
                        PList [PStr (ascii ''OnlyOneField'')]] \<and>
   list_all record_ok (take 1 [PList [PStr [55296], PStr (ascii ''x'')],
                               PList [PStr (ascii ''OnlyOneField'')]]) \<and>
   short ([PList [PStr [55296], PStr (ascii ''x'')],
           PList [PStr (ascii ''OnlyOneField'')]] ! 1) \<and>
   main sample_runtime (Some (Document (PList
       [PList [PStr [55296], PStr (ascii ''x'')],
        PList [PStr (ascii ''OnlyOneField'')]]))) =
     (ascii ''article;resistance'' @ [10], Inl UnicodeEncodeError) \<and>
   fst (main sample_runtime (Some (Document (PList
       [PList [PStr [55296], PStr (ascii ''x'')],
        PList [PStr (ascii ''OnlyOneField'')]])))) \<noteq>
     header @ [10] @ rows sample_runtime
       (take 1 [PList [PStr [55296], PStr (ascii ''x'')],
                PList [PStr (ascii ''OnlyOneField'')]])"
  by (simp add: main_document body_def py_print_def fstring_def header_def ascii_def
      encodable_def sample_runtime_def rows_def)


end
